theory Spec2Isabelle
  imports Main "HOL-Library.Sublist"
begin

section \<open>Python string helpers\<close>

text \<open>
  Strings are \<open>char list\<close>. The two line terminators that \<open>logs.py\<close> strips are
  line feed and carriage return.
\<close>

definition LF :: char where
  "LF = CHR 0x0A"

definition CR :: char where
  "CR = CHR 0x0D"

text \<open>\<open>s.rstrip(chars)\<close>: drop every trailing character that occurs in \<open>chars\<close>.\<close>

definition rstrip :: "string \<Rightarrow> string \<Rightarrow> string" where
  "rstrip chars s = rev (dropWhile (\<lambda>c. c \<in> set chars) (rev s))"

text \<open>\<open>sep.join(xs)\<close>.\<close>

fun py_join :: "string \<Rightarrow> string list \<Rightarrow> string" where
  "py_join sep [] = []"
| "py_join sep [x] = x"
| "py_join sep (x # y # ys) = x @ sep @ py_join sep (y # ys)"

section \<open>logs.py: LogCapture\<close>

type_synonym tid = nat

text \<open>
  The fields of \<open>LogCapture\<close>. The lock only serialises the accesses to \<open>buffer\<close>, so
  every locked block is one atomic step of the model and the lock itself carries no state.
\<close>

record LogCapture =
  stdout_thread :: "tid option"
  stderr_thread :: "tid option"
  buffer :: "string list"
  stop_event :: bool

definition LogCapture_init :: LogCapture where
  "LogCapture_init =
     \<lparr>stdout_thread = None, stderr_thread = None, buffer = [], stop_event = False\<rparr>"

definition get_output :: "LogCapture \<Rightarrow> string" where
  "get_output c = py_join [LF] (buffer c)"

definition get_lines :: "LogCapture \<Rightarrow> string list" where
  "get_lines c = buffer c"

definition clear :: "LogCapture \<Rightarrow> LogCapture" where
  "clear c = c\<lparr>buffer := []\<rparr>"

text \<open>
  The body of the reader loop for one line that \<open>readline\<close> returned:
  \<open>decoded = line.rstrip("\n\r")\<close>, then \<open>buffer.append(f"[{prefix}] {decoded}")\<close>.
\<close>

definition log_entry :: "string \<Rightarrow> string \<Rightarrow> string" where
  "log_entry pfx line = ''['' @ pfx @ ''] '' @ rstrip [LF, CR] line"

definition append_line :: "string \<Rightarrow> string \<Rightarrow> LogCapture \<Rightarrow> LogCapture" where
  "append_line pfx line c = c\<lparr>buffer := buffer c @ [log_entry pfx line]\<rparr>"

text \<open>
  \<open>_read_stream(stream, prefix)\<close> (the prefix is \<open>pfx\<close> here). The stream is the list of strings that the successive
  \<open>readline\<close> calls return; after the last one \<open>readline\<close> returns the empty string, which
  is the sentinel of \<open>iter(stream.readline, "")\<close>. The stop event is set by another thread,
  so what the reader sees when it tests the event after its \<open>k\<close>-th append is given by
  \<open>stop_seen k\<close> (or by the flag of the capture itself when that is already set).
\<close>

fun read_stream :: "(nat \<Rightarrow> bool) \<Rightarrow> nat \<Rightarrow> string list \<Rightarrow> string \<Rightarrow> LogCapture \<Rightarrow> LogCapture" where
  "read_stream stop_seen k [] pfx c = c"
| "read_stream stop_seen k (line # rest) pfx c =
     (if line = [] then c
      else let c' = append_line pfx line c
           in if stop_event c' \<or> stop_seen (Suc k) then c'
              else read_stream stop_seen (Suc k) rest pfx c')"

text \<open>
  The two readers of one attachment run concurrently, each appending under the lock. An
  execution is therefore a sequence of atomic appends, in arrival order, each tagged with
  the prefix of the reader that made it (\<open>attach\<close> starts them with \<open>"STDOUT"\<close> and
  \<open>"STDERR"\<close>).
\<close>

datatype stream_tag = STDOUT | STDERR

fun tag_name :: "stream_tag \<Rightarrow> string" where
  "tag_name STDOUT = ''STDOUT''"
| "tag_name STDERR = ''STDERR''"

text \<open>The rendered tag, as the specification words it: the prefix of every line.\<close>

definition tag_prefix :: "stream_tag \<Rightarrow> string" where
  "tag_prefix t = (case t of STDOUT \<Rightarrow> ''[STDOUT] '' | STDERR \<Rightarrow> ''[STDERR] '')"

fun arrivals :: "(stream_tag \<times> string) list \<Rightarrow> LogCapture \<Rightarrow> LogCapture" where
  "arrivals [] c = c"
| "arrivals ((t, line) # rest) c = arrivals rest (append_line (tag_name t) line c)"

definition ends_in_terminator :: "string \<Rightarrow> bool" where
  "ends_in_terminator s = (s \<noteq> [] \<and> (last s = LF \<or> last s = CR))"


section \<open>Python numbers as text\<close>

text \<open>\<open>str(n)\<close> for an integer, as the f-strings of \<open>server.py\<close> render it.\<close>

definition digit_chr :: "nat \<Rightarrow> char" where
  "digit_chr d = ''0123456789'' ! d"

function str_nat :: "nat \<Rightarrow> string" where
  "str_nat n = (if n < 10 then [digit_chr n] else str_nat (n div 10) @ [digit_chr (n mod 10)])"
  by pat_completeness auto
termination
  by (relation "measure id") auto

declare str_nat.simps [simp del]

definition str_int :: "int \<Rightarrow> string" where
  "str_int i = (if i < 0 then ''-'' @ str_nat (nat (- i)) else str_nat (nat i))"

text \<open>
  \<open>int(s)\<close> on a string of ASCII characters: surrounding whitespace is ignored, one sign
  is allowed, then decimal digits, where single underscores may separate digits. \<open>None\<close>
  is \<open>ValueError\<close>. File names with characters outside ASCII are not modelled.
\<close>

definition is_space :: "char \<Rightarrow> bool" where
  "is_space c = (c \<in> set [CHR '' '', CHR 0x09, CHR 0x0A, CHR 0x0B, CHR 0x0C, CHR 0x0D,
                           CHR 0x1C, CHR 0x1D, CHR 0x1E, CHR 0x1F])"

definition strip :: "string \<Rightarrow> string" where
  "strip s = rev (dropWhile is_space (rev (dropWhile is_space s)))"

definition digit_val :: "char \<Rightarrow> nat option" where
  "digit_val c = map_of [(CHR ''0'', 0), (CHR ''1'', 1), (CHR ''2'', 2), (CHR ''3'', 3),
                         (CHR ''4'', 4), (CHR ''5'', 5), (CHR ''6'', 6), (CHR ''7'', 7),
                         (CHR ''8'', 8), (CHR ''9'', 9)] c"

fun digits_val :: "nat \<Rightarrow> bool \<Rightarrow> string \<Rightarrow> nat option" where
  "digits_val acc after_digit [] = (if after_digit then Some acc else None)"
| "digits_val acc after_digit (c # cs) =
     (if c = CHR ''_'' then
        (if after_digit \<and> cs \<noteq> [] then digits_val acc False cs else None)
      else (case digit_val c of
              None \<Rightarrow> None
            | Some d \<Rightarrow> digits_val (10 * acc + d) True cs))"

definition py_int :: "string \<Rightarrow> int option" where
  "py_int s =
     (case strip s of
        [] \<Rightarrow> None
      | c # cs \<Rightarrow>
          if c = CHR ''-'' then map_option (\<lambda>n. - int n) (digits_val 0 False cs)
          else if c = CHR ''+'' then map_option int (digits_val 0 False cs)
          else map_option int (digits_val 0 False (c # cs)))"

text \<open>\<open>os.path.join(a, b)\<close> on POSIX.\<close>

definition path_join :: "string \<Rightarrow> string \<Rightarrow> string" where
  "path_join a b =
     (if take 1 b = ''/'' then b
      else if a = [] \<or> last a = CHR ''/'' then a @ b
      else a @ ''/'' @ b)"

section \<open>Exceptions and outcomes\<close>

datatype exn =
    RuntimeError string
  | ValueError string
  | TimeoutExpired
  | OSError

text \<open>
  What a call does: it returns a value, raises, or never returns (\<open>Hang\<close>: a wait
  without timeout on a process that does not exit).
\<close>

datatype 'a outcome = Return 'a | Raise exn | Hang

type_synonym ('s, 'a) comp = "'s \<Rightarrow> 'a outcome \<times> 's"

definition ret :: "'a \<Rightarrow> ('s, 'a) comp" where
  "ret x = (\<lambda>s. (Return x, s))"

definition throw :: "exn \<Rightarrow> ('s, 'a) comp" where
  "throw e = (\<lambda>s. (Raise e, s))"

definition bnd :: "('s, 'a) comp \<Rightarrow> ('a \<Rightarrow> ('s, 'b) comp) \<Rightarrow> ('s, 'b) comp" where
  "bnd m f = (\<lambda>s. case m s of
                     (Return x, s') \<Rightarrow> f x s'
                   | (Raise e, s') \<Rightarrow> (Raise e, s')
                   | (Hang, s') \<Rightarrow> (Hang, s'))"

text \<open>\<open>try: m  except subprocess.TimeoutExpired: h\<close>. The state changes of \<open>m\<close> stay.\<close>

definition except_TimeoutExpired :: "('s, 'a) comp \<Rightarrow> ('s, 'a) comp \<Rightarrow> ('s, 'a) comp" where
  "except_TimeoutExpired m h = (\<lambda>s. case m s of
                                       (Raise TimeoutExpired, s') \<Rightarrow> h s'
                                     | r \<Rightarrow> r)"

section \<open>The operating system\<close>

type_synonym pid = nat

text \<open>
  One entry of the process table. \<open>returncode\<close> is what \<open>poll()\<close> reports: \<open>None\<close> while
  the process has not exited. \<open>term_delay\<close> is the behaviour of the program on SIGTERM:
  the milliseconds it takes to exit, or \<open>None\<close> when it ignores the signal.
\<close>

record proc =
  argv :: "string list"
  env :: "string \<rightharpoonup> string"
  has_stdout :: bool
  has_stderr :: bool
  returncode :: "int option"
  term_delay :: "nat option"
  term_sent :: bool

datatype event =
    Spawn pid "string list"
  | Terminate pid
  | Kill pid
  | Wait pid "int option"
  | Sleep nat
  | Warn string
  | ThreadStart tid string
  | Join tid
  | Connect string int

text \<open>
  The world outside the Python objects. The clock counts milliseconds. \<open>launch\<close>,
  \<open>connect_ex\<close>, \<open>path_exists\<close>, \<open>listdir\<close> and \<open>thread_blocked\<close> are the answers of the
  environment: \<open>launch args\<close> is \<open>None\<close> when the program cannot be executed, otherwise
  the exit status the new process has when it is first polled and its \<open>term_delay\<close>;
  \<open>connect_ex t host port\<close> is the result of a connection attempt made at time \<open>t\<close>
  (\<open>None\<close>: \<open>OSError\<close>, otherwise the errno) and the milliseconds it takes;
  \<open>listdir d\<close> is \<open>None\<close> when listing raises \<open>OSError\<close>. \<open>trace\<close> records every call
  that acts on the environment, in order.
\<close>

record world =
  clock :: nat
  procs :: "pid \<Rightarrow> proc"
  next_pid :: pid
  next_tid :: tid
  launch :: "string list \<Rightarrow> (int option \<times> nat option) option"
  connect_ex :: "nat \<Rightarrow> string \<Rightarrow> int \<Rightarrow> int option \<times> nat"
  path_exists :: "string \<Rightarrow> bool"
  listdir :: "string \<Rightarrow> string list option"
  thread_blocked :: "tid \<Rightarrow> bool"
  environ :: "string \<rightharpoonup> string"
  tempdir :: string
  platform_system :: string
  free_port :: int
  trace :: "event list"

definition log_event :: "event \<Rightarrow> world \<Rightarrow> world" where
  "log_event e w = w\<lparr>trace := trace w @ [e]\<rparr>"

definition update_proc :: "pid \<Rightarrow> (proc \<Rightarrow> proc) \<Rightarrow> world \<Rightarrow> world" where
  "update_proc p f w = w\<lparr>procs := (procs w)(p := f (procs w p))\<rparr>"

text \<open>\<open>time.sleep\<close> and \<open>warnings.warn\<close>.\<close>

definition sleep :: "nat \<Rightarrow> world \<Rightarrow> world" where
  "sleep ms w = log_event (Sleep ms) (w\<lparr>clock := clock w + ms\<rparr>)"

definition warn :: "string \<Rightarrow> world \<Rightarrow> world" where
  "warn msg w = log_event (Warn msg) w"

text \<open>
  \<open>subprocess.Popen(args, stdout=..., stderr=..., env=...)\<close>; the two flags say whether
  the stream is a pipe.
\<close>

definition Popen :: "string list \<Rightarrow> bool \<Rightarrow> bool \<Rightarrow> (string \<rightharpoonup> string) \<Rightarrow> (world, pid) comp" where
  "Popen args out_pipe err_pipe e w =
     (case launch w args of
        None \<Rightarrow> (Raise OSError, w)
      | Some (rc, td) \<Rightarrow>
          let p = next_pid w;
              pr = \<lparr>argv = args, env = e, has_stdout = out_pipe, has_stderr = err_pipe,
                    returncode = rc, term_delay = td, term_sent = False\<rparr>
          in (Return p,
              log_event (Spawn p args) (w\<lparr>procs := (procs w)(p := pr), next_pid := Suc p\<rparr>)))"

text \<open>\<open>Popen.poll()\<close>.\<close>

definition poll :: "pid \<Rightarrow> world \<Rightarrow> int option" where
  "poll p w = returncode (procs w p)"

text \<open>
  \<open>Popen.terminate()\<close> and \<open>Popen.kill()\<close>: both poll first and send nothing to a process
  that has exited. SIGKILL cannot be ignored, the process is gone with status -9.
\<close>

definition terminate :: "pid \<Rightarrow> world \<Rightarrow> world" where
  "terminate p w =
     log_event (Terminate p)
       (if poll p w = None then update_proc p (\<lambda>pr. pr\<lparr>term_sent := True\<rparr>) w else w)"

definition kill :: "pid \<Rightarrow> world \<Rightarrow> world" where
  "kill p w =
     log_event (Kill p)
       (if poll p w = None then update_proc p (\<lambda>pr. pr\<lparr>returncode := Some (- 9)\<rparr>) w else w)"

text \<open>
  \<open>Popen.wait(timeout)\<close>, the timeout in seconds. A process that got SIGTERM and heeds
  it exits after its \<open>term_delay\<close> with status -15.
\<close>

definition wait :: "pid \<Rightarrow> int option \<Rightarrow> (world, int) comp" where
  "wait p timeout w0 =
     (let w = log_event (Wait p timeout) w0; pr = procs w p
      in case returncode pr of
           Some c \<Rightarrow> (Return c, w)
         | None \<Rightarrow>
            (case (if term_sent pr then term_delay pr else None) of
               Some d \<Rightarrow>
                 (case timeout of
                    None \<Rightarrow>
                      (Return (- 15),
                       update_proc p (\<lambda>pr. pr\<lparr>returncode := Some (- 15)\<rparr>) (w\<lparr>clock := clock w + d\<rparr>))
                  | Some t \<Rightarrow>
                      if int d \<le> 1000 * t
                      then (Return (- 15),
                            update_proc p (\<lambda>pr. pr\<lparr>returncode := Some (- 15)\<rparr>)
                              (w\<lparr>clock := clock w + d\<rparr>))
                      else (Raise TimeoutExpired, w\<lparr>clock := clock w + nat (1000 * t)\<rparr>))
             | None \<Rightarrow>
                 (case timeout of
                    None \<Rightarrow> (Hang, w)
                  | Some t \<Rightarrow> (Raise TimeoutExpired, w\<lparr>clock := clock w + nat (1000 * t)\<rparr>))))"

text \<open>\<open>Thread.start()\<close> and \<open>Thread.join(timeout)\<close>, the timeout in seconds.\<close>

definition thread_start :: "tid \<Rightarrow> string \<Rightarrow> world \<Rightarrow> world" where
  "thread_start t pfx w = log_event (ThreadStart t pfx) w"

definition join :: "tid \<Rightarrow> nat \<Rightarrow> world \<Rightarrow> world" where
  "join t timeout w =
     log_event (Join t) (if thread_blocked w t then w\<lparr>clock := clock w + 1000 * timeout\<rparr> else w)"

text \<open>
  One probe of \<open>_wait_for_socket\<close>: a socket with a timeout of one second and
  \<open>connect_ex((host, port))\<close>.
\<close>

definition connect :: "string \<Rightarrow> int \<Rightarrow> world \<Rightarrow> int option \<times> world" where
  "connect h p w =
     (case connect_ex w (clock w) h p of
        (r, d) \<Rightarrow> (r, log_event (Connect h p) (w\<lparr>clock := clock w + d\<rparr>)))"

section \<open>logs.py: attaching and stopping the capture\<close>

text \<open>
  \<open>LogCapture.attach(process)\<close>. The reader threads run concurrently with the caller;
  what they append is described by \<open>read_stream\<close> and \<open>arrivals\<close>, not here.
\<close>

definition attach :: "pid \<Rightarrow> (LogCapture \<times> world, unit) comp" where
  "attach p = (\<lambda>(c, w).
     if \<not> has_stdout (procs w p) \<or> \<not> has_stderr (procs w p)
     then (Raise (ValueError ''Process must have stdout and stderr set to PIPE''), (c, w))
     else let t1 = next_tid w;
              t2 = Suc t1;
              c' = c\<lparr>stop_event := False, stdout_thread := Some t1, stderr_thread := Some t2\<rparr>;
              w' = thread_start t2 ''STDERR'' (thread_start t1 ''STDOUT'' (w\<lparr>next_tid := Suc t2\<rparr>))
          in (Return (), (c', w')))"

text \<open>\<open>LogCapture.stop()\<close>.\<close>

definition LogCapture_stop :: "(LogCapture \<times> world, unit) comp" where
  "LogCapture_stop = (\<lambda>(c, w).
     let c' = c\<lparr>stop_event := True\<rparr>;
         w1 = (case stdout_thread c' of Some t \<Rightarrow> join t 2 w | None \<Rightarrow> w);
         w2 = (case stderr_thread c' of Some t \<Rightarrow> join t 2 w1 | None \<Rightarrow> w1)
     in (Return (), (c', w2)))"

section \<open>server.py: XpraServer\<close>

record XpraServer =
  host :: string
  port :: int
  display :: "string option"
  process :: "pid option"
  log_capture :: LogCapture
  xvfb_process :: "pid option"
  platform :: string

text \<open>Access to the object and to the world from a method of \<open>XpraServer\<close>.\<close>

definition get_self :: "(XpraServer \<times> world, XpraServer) comp" where
  "get_self = (\<lambda>(self, w). (Return self, (self, w)))"

definition set_self :: "(XpraServer \<Rightarrow> XpraServer) \<Rightarrow> (XpraServer \<times> world, unit) comp" where
  "set_self f = (\<lambda>(self, w). (Return (), (f self, w)))"

definition os_get :: "(world \<Rightarrow> 'a) \<Rightarrow> (XpraServer \<times> world, 'a) comp" where
  "os_get f = (\<lambda>(self, w). (Return (f w), (self, w)))"

definition os_act :: "(world \<Rightarrow> world) \<Rightarrow> (XpraServer \<times> world, unit) comp" where
  "os_act f = (\<lambda>(self, w). (Return (), (self, f w)))"

definition os_call :: "(world, 'a) comp \<Rightarrow> (XpraServer \<times> world, 'a) comp" where
  "os_call m = (\<lambda>(self, w). case m w of (r, w') \<Rightarrow> (r, (self, w')))"

definition on_log_capture :: "(LogCapture \<times> world, 'a) comp \<Rightarrow> (XpraServer \<times> world, 'a) comp" where
  "on_log_capture m = (\<lambda>(self, w).
     case m (log_capture self, w) of (r, (c, w')) \<Rightarrow> (r, (self\<lparr>log_capture := c\<rparr>, w')))"

text \<open>\<open>_get_free_port\<close> and \<open>__init__(host, port)\<close>: \<open>port or self._get_free_port()\<close>.\<close>

definition get_free_port :: "world \<Rightarrow> int" where
  "get_free_port w = free_port w"

definition XpraServer_init :: "string \<Rightarrow> int option \<Rightarrow> world \<Rightarrow> XpraServer" where
  "XpraServer_init h p w =
     \<lparr>host = h,
      port = (case p of Some n \<Rightarrow> if n \<noteq> 0 then n else get_free_port w | None \<Rightarrow> get_free_port w),
      display = None, process = None, log_capture = LogCapture_init, xvfb_process = None,
      platform = platform_system w\<rparr>"

subsection \<open>\<open>_find_free_display\<close>\<close>

definition x11_socket_dir :: string where
  "x11_socket_dir = ''/tmp/.X11-unix''"

text \<open>The loop over \<open>os.listdir(x11_socket_dir)\<close> that fills \<open>used_displays\<close>.\<close>

fun used_displays :: "string list \<Rightarrow> int list" where
  "used_displays [] = []"
| "used_displays (filename # rest) =
     (if take 1 filename = ''X'' then
        (case py_int (drop 1 filename) of
           Some display_num \<Rightarrow> display_num # used_displays rest
         | None \<Rightarrow> used_displays rest)
      else used_displays rest)"

text \<open>The loop \<open>for display_num in range(100, 10000)\<close>, from \<open>display_num\<close> on.\<close>

function scan_displays :: "int \<Rightarrow> int list \<Rightarrow> world \<Rightarrow> string outcome" where
  "scan_displays display_num used w =
     (if display_num < 10000 then
        (if display_num \<notin> set used then
           (if \<not> path_exists w (path_join x11_socket_dir (''X'' @ str_int display_num))
            then Return ('':'' @ str_int display_num)
            else scan_displays (display_num + 1) used w)
         else scan_displays (display_num + 1) used w)
      else Raise (RuntimeError ''Could not find free X11 display''))"
  by pat_completeness auto
termination
  by (relation "measure (\<lambda>(display_num, used, w). nat (10000 - display_num))") auto

declare scan_displays.simps [simp del]

definition find_free_display :: "(XpraServer \<times> world, string) comp" where
  "find_free_display = (\<lambda>(self, w).
     if platform self \<noteq> ''Linux'' then
       (Raise (RuntimeError (''Display management is only supported on Linux/X11, not on ''
                 @ platform self
                 @ ''. On macOS and Windows, Xpra uses the native display system.'')),
        (self, w))
     else
       (case (if path_exists w x11_socket_dir then listdir w x11_socket_dir else Some []) of
          None \<Rightarrow> (Raise OSError, (self, w))
        | Some filenames \<Rightarrow> (scan_displays 100 (used_displays filenames) w, (self, w))))"

subsection \<open>\<open>_start_xvfb\<close>\<close>

definition start_xvfb :: "string \<Rightarrow> (XpraServer \<times> world, pid) comp" where
  "start_xvfb d =
     bnd get_self (\<lambda>self.
     if platform self \<noteq> ''Linux'' then
       throw (RuntimeError (''Xvfb is only supported on Linux/X11, not on '' @ platform self
                @ ''. On macOS and Windows, Xpra uses the native display system.''))
     else
       bnd (os_get environ) (\<lambda>e.
       bnd (os_call (Popen [''Xvfb'', d, ''-screen'', ''0'', ''1280x1024x24'', ''-ac'', ''-noreset'']
                      False False e)) (\<lambda>p.
       bnd (os_act (sleep 500)) (\<lambda>_.
       bnd (os_get (poll p)) (\<lambda>status.
       if status \<noteq> None then throw (RuntimeError (''Xvfb failed to start on '' @ d))
       else ret p)))))"

subsection \<open>\<open>_wait_for_socket\<close>\<close>

text \<open>
  The loop \<open>while time.time() - start < timeout\<close>: one probe, return when it connects,
  otherwise (errno or \<open>OSError\<close>) sleep 0.2 seconds and go on.
\<close>

function wait_loop :: "nat \<Rightarrow> int \<Rightarrow> string \<Rightarrow> int \<Rightarrow> world \<Rightarrow> unit outcome \<times> world" where
  "wait_loop start timeout h p w =
     (if int (clock w) - int start < 1000 * timeout then
        (case connect h p w of
           (result, w1) \<Rightarrow>
             if result = Some 0 then (Return (), w1)
             else wait_loop start timeout h p (sleep 200 w1))
      else (Raise (RuntimeError (''WebSocket endpoint not ready after '' @ str_int timeout
                     @ '' seconds'')), w))"
  by pat_completeness auto
termination
  by (relation "measure (\<lambda>(start, timeout, h, p, w). nat (int start + 1000 * timeout - int (clock w)))")
     (auto simp: connect_def sleep_def log_event_def split: prod.splits)

declare wait_loop.simps [simp del]

definition wait_for_socket :: "int \<Rightarrow> (XpraServer \<times> world, unit) comp" where
  "wait_for_socket timeout = (\<lambda>(self, w).
     case wait_loop (clock w) timeout (host self) (port self) w of
       (r, w') \<Rightarrow> (r, (self, w')))"

subsection \<open>\<open>start\<close>\<close>

definition start :: "string \<Rightarrow> string list option \<Rightarrow> bool \<Rightarrow> (XpraServer \<times> world, string) comp" where
  "start app_command extra_args use_xvfb =
     bnd get_self (\<lambda>self.
     if process self \<noteq> None then throw (RuntimeError ''Server already running'')
     else
       bnd (if platform self = ''Linux'' \<and> use_xvfb then
              bnd find_free_display (\<lambda>d.
              bnd (set_self (\<lambda>s. s\<lparr>display := Some d\<rparr>)) (\<lambda>_.
              bnd (start_xvfb d) (\<lambda>x.
              bnd (set_self (\<lambda>s. s\<lparr>xvfb_process := Some x\<rparr>)) (\<lambda>_.
              os_act (sleep 1000)))))
            else if platform self \<in> set [''Darwin'', ''Windows''] then
              (if use_xvfb then
                 os_act (warn (''use_xvfb=True is ignored on '' @ platform self
                                @ '' (native display is used instead)''))
               else ret ())
            else ret ()) (\<lambda>_.
       bnd get_self (\<lambda>self.
       let args = [''xpra'', ''seamless'', ''--start='' @ app_command,
                   ''--bind-ws='' @ host self @ '':'' @ str_int (port self),
                   ''--no-daemon'', ''--speaker=no'', ''--microphone=no'']
                  @ (case display self of
                       Some d \<Rightarrow> if d \<noteq> [] then [''--display='' @ d] else []
                     | None \<Rightarrow> [])
                  @ (case extra_args of Some xs \<Rightarrow> xs | None \<Rightarrow> [])
       in
       bnd (os_get (\<lambda>w. (environ w)(''XPRA_LOG_DIR'' \<mapsto> tempdir w, ''XPRA_NOTTY'' \<mapsto> ''1''))) (\<lambda>e.
       bnd (os_call (Popen args True True e)) (\<lambda>p.
       bnd (set_self (\<lambda>s. s\<lparr>process := Some p\<rparr>)) (\<lambda>_.
       bnd (on_log_capture (attach p)) (\<lambda>_.
       bnd (wait_for_socket 10) (\<lambda>_.
       bnd get_self (\<lambda>self.
       ret (''ws://'' @ host self @ '':'' @ str_int (port self) @ ''/''))))))))))"

subsection \<open>\<open>stop\<close>, \<open>get_logs\<close>, \<open>is_running\<close>\<close>

text \<open>
  \<open>terminate(); wait(timeout)\<close> inside \<open>try\<close>, \<open>kill(); wait()\<close> in the handler of
  \<open>TimeoutExpired\<close>.
\<close>

definition terminate_then_kill :: "pid \<Rightarrow> int \<Rightarrow> (XpraServer \<times> world, unit) comp" where
  "terminate_then_kill p timeout =
     except_TimeoutExpired
       (bnd (os_act (terminate p)) (\<lambda>_.
        bnd (os_call (wait p (Some timeout))) (\<lambda>_. ret ())))
       (bnd (os_act (kill p)) (\<lambda>_.
        bnd (os_call (wait p None)) (\<lambda>_. ret ())))"

definition stop :: "int \<Rightarrow> (XpraServer \<times> world, unit) comp" where
  "stop timeout =
     bnd (on_log_capture LogCapture_stop) (\<lambda>_.
     bnd get_self (\<lambda>self.
     bnd (case process self of
            Some p \<Rightarrow>
              bnd (terminate_then_kill p timeout) (\<lambda>_.
              set_self (\<lambda>s. s\<lparr>process := None\<rparr>))
          | None \<Rightarrow> ret ()) (\<lambda>_.
     bnd get_self (\<lambda>self.
     (case xvfb_process self of
        Some x \<Rightarrow>
          bnd (terminate_then_kill x 5) (\<lambda>_.
          set_self (\<lambda>s. s\<lparr>xvfb_process := None\<rparr>))
      | None \<Rightarrow> ret ())))))"

text \<open>The default of the parameter: \<open>timeout: int = 10\<close>.\<close>

definition stop_default_timeout :: int where
  "stop_default_timeout = 10"

definition get_logs :: "XpraServer \<Rightarrow> string" where
  "get_logs self = get_output (log_capture self)"

definition is_running :: "XpraServer \<times> world \<Rightarrow> bool" where
  "is_running = (\<lambda>(self, w).
     case process self of
       None \<Rightarrow> False
     | Some p \<Rightarrow> poll p w = None)"

section \<open>The blocks of \<open>start\<close>\<close>

text \<open>
  \<open>start\<close> is a guard followed by two blocks: the platform-specific display setup, and
  the launch of the main process up to the returned URL. They are named here so that
  properties of \<open>start\<close> can be proved block by block; \<open>start_blocks\<close> below shows that
  \<open>start\<close> is their composition.
\<close>

definition setup_display :: "bool \<Rightarrow> (XpraServer \<times> world, unit) comp" where
  "setup_display use_xvfb =
     bnd get_self (\<lambda>self.
     if platform self = ''Linux'' \<and> use_xvfb then
       bnd find_free_display (\<lambda>d.
       bnd (set_self (\<lambda>s. s\<lparr>display := Some d\<rparr>)) (\<lambda>_.
       bnd (start_xvfb d) (\<lambda>x.
       bnd (set_self (\<lambda>s. s\<lparr>xvfb_process := Some x\<rparr>)) (\<lambda>_.
       os_act (sleep 1000)))))
     else if platform self \<in> set [''Darwin'', ''Windows''] then
       (if use_xvfb then
          os_act (warn (''use_xvfb=True is ignored on '' @ platform self
                         @ '' (native display is used instead)''))
        else ret ())
     else ret ())"

definition xpra_args :: "XpraServer \<Rightarrow> string \<Rightarrow> string list option \<Rightarrow> string list" where
  "xpra_args self app_command extra_args =
     [''xpra'', ''seamless'', ''--start='' @ app_command,
      ''--bind-ws='' @ host self @ '':'' @ str_int (port self),
      ''--no-daemon'', ''--speaker=no'', ''--microphone=no'']
     @ (case display self of
          Some d \<Rightarrow> if d \<noteq> [] then [''--display='' @ d] else []
        | None \<Rightarrow> [])
     @ (case extra_args of Some xs \<Rightarrow> xs | None \<Rightarrow> [])"

definition launch_xpra :: "string \<Rightarrow> string list option \<Rightarrow> (XpraServer \<times> world, string) comp" where
  "launch_xpra app_command extra_args =
     bnd get_self (\<lambda>self.
     bnd (os_get (\<lambda>w. (environ w)(''XPRA_LOG_DIR'' \<mapsto> tempdir w, ''XPRA_NOTTY'' \<mapsto> ''1''))) (\<lambda>e.
     bnd (os_call (Popen (xpra_args self app_command extra_args) True True e)) (\<lambda>p.
     bnd (set_self (\<lambda>s. s\<lparr>process := Some p\<rparr>)) (\<lambda>_.
     bnd (on_log_capture (attach p)) (\<lambda>_.
     bnd (wait_for_socket 10) (\<lambda>_.
     bnd get_self (\<lambda>self.
     ret (''ws://'' @ host self @ '':'' @ str_int (port self) @ ''/''))))))))"

section \<open>The words of the specification\<close>

text \<open>The error taxonomy: the code raises \<open>RuntimeError\<close> with these messages.\<close>

definition AlreadyRunningError :: exn where
  "AlreadyRunningError = RuntimeError ''Server already running''"

definition UnsupportedPlatformError :: "string \<Rightarrow> exn" where
  "UnsupportedPlatformError name =
     RuntimeError (''Display management is only supported on Linux/X11, not on '' @ name
       @ ''. On macOS and Windows, Xpra uses the native display system.'')"

definition ResourceExhaustedError :: exn where
  "ResourceExhaustedError = RuntimeError ''Could not find free X11 display''"

definition ReadinessTimeoutError :: exn where
  "ReadinessTimeoutError = RuntimeError ''WebSocket endpoint not ready after 10 seconds''"

text \<open>
  The graceful-then-forced pattern on one process: the termination signal, a wait of at
  most \<open>timeout\<close>, and only when that wait expired the kill and a wait without limit.
\<close>

definition graceful_then_forced :: "pid \<Rightarrow> int \<Rightarrow> bool \<Rightarrow> event list" where
  "graceful_then_forced p timeout expired =
     [Terminate p, Wait p (Some timeout)] @ (if expired then [Kill p, Wait p None] else [])"

text \<open>
  The wait of at most \<open>timeout\<close> seconds after SIGTERM expires when the process is
  running and does not exit on the signal within that time.
\<close>

definition wait_expires :: "pid \<Rightarrow> int \<Rightarrow> world \<Rightarrow> bool" where
  "wait_expires p timeout w =
     (poll p w = None \<and>
      (case term_delay (procs w p) of None \<Rightarrow> True | Some d \<Rightarrow> 1000 * timeout < int d))"

definition shutdown_events :: "pid option \<Rightarrow> int \<Rightarrow> world \<Rightarrow> event list" where
  "shutdown_events h timeout w =
     (case h of
        None \<Rightarrow> []
      | Some p \<Rightarrow> graceful_then_forced p timeout (wait_expires p timeout w))"

text \<open>The joins of the reader threads that a capture still records.\<close>

definition reader_joins :: "LogCapture \<Rightarrow> event list" where
  "reader_joins c =
     (case stdout_thread c of Some t \<Rightarrow> [Join t] | None \<Rightarrow> [])
     @ (case stderr_thread c of Some t \<Rightarrow> [Join t] | None \<Rightarrow> [])"

text \<open>The events that signal a process.\<close>

fun is_signal :: "event \<Rightarrow> bool" where
  "is_signal (Terminate p) = True"
| "is_signal (Kill p) = True"
| "is_signal e = False"

fun is_warning :: "event \<Rightarrow> bool" where
  "is_warning (Warn msg) = True"
| "is_warning e = False"

fun is_spawn :: "event \<Rightarrow> bool" where
  "is_spawn (Spawn p args) = True"
| "is_spawn e = False"

text \<open>The events that \<open>w'\<close> has beyond those of \<open>w\<close>.\<close>

definition new_events :: "world \<Rightarrow> world \<Rightarrow> event list" where
  "new_events w w' = drop (length (trace w)) (trace w')"

text \<open>
  Display \<open>n\<close> has a socket file: an entry of the socket directory is named \<open>X\<close> followed
  by text that reads as \<open>n\<close>, or the file \<open>X<n>\<close> exists there.
\<close>

definition socket_names :: "world \<Rightarrow> string list" where
  "socket_names w =
     (if path_exists w x11_socket_dir
      then (case listdir w x11_socket_dir of Some names \<Rightarrow> names | None \<Rightarrow> [])
      else [])"

definition has_socket :: "world \<Rightarrow> int \<Rightarrow> bool" where
  "has_socket w n =
     (n \<in> set (used_displays (socket_names w))
      \<or> path_exists w (path_join x11_socket_dir (''X'' @ str_int n)))"

section \<open>Concrete environments\<close>

definition idle_proc :: proc where
  "idle_proc = \<lparr>argv = [], env = Map.empty, has_stdout = False, has_stderr = False,
                 returncode = Some 0, term_delay = None, term_sent = False\<rparr>"

text \<open>
  A Linux host on which every program starts and exits 100 ms after SIGTERM, the
  endpoint accepts the first connection, and no display socket exists.
\<close>

definition linux_world :: world where
  "linux_world =
     \<lparr>clock = 0, procs = (\<lambda>_. idle_proc), next_pid = 1000, next_tid = 0,
      launch = (\<lambda>args. Some (None, Some 100)),
      connect_ex = (\<lambda>t h p. (Some 0, 5)),
      path_exists = (\<lambda>p. False),
      listdir = (\<lambda>d. None),
      thread_blocked = (\<lambda>_. False), environ = Map.empty, tempdir = ''/tmp'',
      platform_system = ''Linux'', free_port = 40000, trace = []\<rparr>"

text \<open>The same host with the sockets of the displays 100 to 105.\<close>

definition six_sockets_world :: world where
  "six_sockets_world =
     linux_world
       \<lparr>path_exists := (\<lambda>p. p \<in> set [''/tmp/.X11-unix'', ''/tmp/.X11-unix/X100'',
                                       ''/tmp/.X11-unix/X101'', ''/tmp/.X11-unix/X102'',
                                       ''/tmp/.X11-unix/X103'', ''/tmp/.X11-unix/X104'',
                                       ''/tmp/.X11-unix/X105'']),
        listdir := (\<lambda>d. if d = ''/tmp/.X11-unix''
                         then Some [''X100'', ''X101'', ''X102'', ''X103'', ''X104'', ''X105'']
                         else None)\<rparr>"

text \<open>A host on which every path exists: every display number is occupied.\<close>

definition crowded_world :: world where
  "crowded_world = linux_world\<lparr>path_exists := (\<lambda>p. True), listdir := (\<lambda>d. Some [])\<rparr>"

text \<open>Hosts of other platforms.\<close>

definition darwin_world :: world where
  "darwin_world = linux_world\<lparr>platform_system := ''Darwin''\<rparr>"

definition freebsd_world :: world where
  "freebsd_world = linux_world\<lparr>platform_system := ''FreeBSD''\<rparr>"

text \<open>
  A Linux host whose endpoint refuses every connection, each attempt taking 4.8 seconds,
  and whose programs ignore SIGTERM.
\<close>

definition deaf_world :: world where
  "deaf_world =
     linux_world\<lparr>connect_ex := (\<lambda>t h p. (Some 111, 4800)), launch := (\<lambda>args. Some (None, None))\<rparr>"

text \<open>A fresh server on the Linux host, and the state after a successful \<open>start\<close> with Xvfb.\<close>

definition fresh_linux :: "XpraServer \<times> world" where
  "fresh_linux = (XpraServer_init ''127.0.0.1'' None linux_world, linux_world)"

definition started_linux :: "XpraServer \<times> world" where
  "started_linux = snd (start ''xeyes'' None True fresh_linux)"

text \<open>The session after \<open>start\<close> and \<open>stop\<close> on the Linux host.\<close>

definition stopped_linux :: "XpraServer \<times> world" where
  "stopped_linux = snd (stop 10 started_linux)"

text \<open>
  A Linux host whose programs ignore SIGTERM, and the state after a successful \<open>start\<close>
  with Xvfb there.
\<close>

definition stubborn_world :: world where
  "stubborn_world = linux_world\<lparr>launch := (\<lambda>args. Some (None, None))\<rparr>"

definition started_stubborn :: "XpraServer \<times> world" where
  "started_stubborn =
     snd (start ''xeyes'' None True
            (XpraServer_init ''127.0.0.1'' None stubborn_world, stubborn_world))"

section \<open>Worlds that differ by calls that signal no process\<close>

definition quiet :: "world \<Rightarrow> world \<Rightarrow> bool" where
  "quiet w w' = (\<exists>es. trace w' = trace w @ es \<and> filter is_signal es = [])"

text \<open>Fresh servers on the other hosts.\<close>

definition fresh_deaf :: "XpraServer \<times> world" where
  "fresh_deaf = (XpraServer_init ''127.0.0.1'' None deaf_world, deaf_world)"

definition fresh_darwin :: "XpraServer \<times> world" where
  "fresh_darwin = (XpraServer_init ''127.0.0.1'' None darwin_world, darwin_world)"

definition fresh_freebsd :: "XpraServer \<times> world" where
  "fresh_freebsd = (XpraServer_init ''127.0.0.1'' None freebsd_world, freebsd_world)"


section \<open>Properties of the capture buffer\<close>

lemma log_entry_tag: "log_entry (tag_name t) line = tag_prefix t @ rstrip [LF, CR] line"
  by (cases t) (simp_all add: log_entry_def tag_prefix_def)

lemma arrivals_buffer:
  "buffer (arrivals xs c) = buffer c @ map (\<lambda>(t, line). log_entry (tag_name t) line) xs"
  by (induction xs arbitrary: c) (auto simp: append_line_def)

lemma rstrip_decomp: "\<exists>rest. line = rstrip cs line @ rest \<and> set rest \<subseteq> set cs"
proof -
  let ?P = "\<lambda>c. c \<in> set cs"
  have "rev line = takeWhile ?P (rev line) @ dropWhile ?P (rev line)"
    by simp
  then have "line = rev (dropWhile ?P (rev line)) @ rev (takeWhile ?P (rev line))"
    by (metis rev_append rev_rev_ident)
  moreover have "set (rev (takeWhile ?P (rev line))) \<subseteq> set cs"
    using set_takeWhileD by fastforce
  ultimately show ?thesis
    unfolding rstrip_def by blast
qed

lemma rstrip_last:
  assumes "rstrip cs line \<noteq> []"
  shows "last (rstrip cs line) \<notin> set cs"
proof -
  let ?d = "dropWhile (\<lambda>c. c \<in> set cs) (rev line)"
  from assms have ne: "?d \<noteq> []"
    by (simp add: rstrip_def)
  then have "hd ?d \<notin> set cs"
    using hd_dropWhile [of "\<lambda>c. c \<in> set cs" "rev line"] by simp
  moreover have "last (rev ?d) = hd ?d"
    using ne by (simp add: last_rev)
  ultimately show ?thesis
    by (simp add: rstrip_def)
qed

lemma log_entry_tag_fun: "log_entry (tag_name t) = (\<lambda>line. tag_prefix t @ rstrip [LF, CR] line)"
  by (rule ext) (rule log_entry_tag)

lemma LF_CR_not_space: "CHR '' '' \<noteq> LF" "CHR '' '' \<noteq> CR"
  by (simp_all add: LF_def CR_def)

lemma log_entry_no_terminator: "\<not> ends_in_terminator (log_entry pfx line)"
proof (cases "rstrip [LF, CR] line = []")
  case True
  then show ?thesis
    using LF_CR_not_space by (simp add: ends_in_terminator_def log_entry_def)
next
  case False
  then show ?thesis
    using rstrip_last [of "[LF, CR]" line]
    by (simp add: ends_in_terminator_def log_entry_def)
qed

lemma read_stream_buffer:
  "\<exists>n. buffer (read_stream stop_seen k lines pfx c) = buffer c @ map (log_entry pfx) (take n lines)"
proof (induction lines arbitrary: k c)
  case Nil
  then show ?case by simp
next
  case (Cons line rest)
  show ?case
  proof (cases "line = [] \<or> stop_event (append_line pfx line c) \<or> stop_seen (Suc k)")
    case True
    then consider "line = []" | "line \<noteq> []" "stop_event (append_line pfx line c) \<or> stop_seen (Suc k)"
      by blast
    then show ?thesis
    proof cases
      case 1
      then have "buffer (read_stream stop_seen k (line # rest) pfx c)
                 = buffer c @ map (log_entry pfx) (take 0 (line # rest))"
        by simp
      then show ?thesis by blast
    next
      case 2
      then have "buffer (read_stream stop_seen k (line # rest) pfx c)
                 = buffer c @ map (log_entry pfx) (take 1 (line # rest))"
        by (auto simp: Let_def append_line_def)
      then show ?thesis by blast
    qed
  next
    case False
    obtain n where n: "buffer (read_stream stop_seen (Suc k) rest pfx (append_line pfx line c))
                       = buffer (append_line pfx line c) @ map (log_entry pfx) (take n rest)"
      using Cons.IH by blast
    from False have "buffer (read_stream stop_seen k (line # rest) pfx c)
                     = buffer c @ map (log_entry pfx) (take (Suc n) (line # rest))"
      using n by (simp add: Let_def append_line_def)
    then show ?thesis by blast
  qed
qed

text \<open>
  C7: for every state of the capture, \<open>get_output\<close> is the lines of \<open>get_lines\<close> joined
  by newlines; the lines that arrive are appended in arrival order, each behind the
  prefix of its stream; after \<open>clear\<close>, \<open>get_lines\<close> is empty and \<open>get_output\<close> is the
  empty text.
\<close>

theorem capture_output_joins_lines:
  "get_output c = py_join [LF] (get_lines c)
   \<and> get_lines (arrivals xs c) = get_lines c @ map (\<lambda>(t, line). tag_prefix t @ rstrip [LF, CR] line) xs
   \<and> get_lines (clear c) = []
   \<and> get_output (clear c) = []"
  by (simp add: get_output_def get_lines_def clear_def arrivals_buffer log_entry_tag)

theorem capture_output_joins_lines_witness:
  "get_output (arrivals [(STDOUT, ''ready'' @ [LF]), (STDERR, ''warn'' @ [CR, LF]), (STDOUT, [LF])] LogCapture_init)
     = ''[STDOUT] ready'' @ [LF] @ ''[STDERR] warn'' @ [LF] @ ''[STDOUT] ''
   \<and> get_lines (clear (arrivals [(STDOUT, ''ready'' @ [LF])] LogCapture_init)) = []"
  using capture_output_joins_lines
    [of "arrivals [(STDOUT, ''ready'' @ [LF]), (STDERR, ''warn'' @ [CR, LF]), (STDOUT, [LF])] LogCapture_init" "[]"]
    capture_output_joins_lines [of LogCapture_init "[(STDOUT, ''ready'' @ [LF]), (STDERR, ''warn'' @ [CR, LF]), (STDOUT, [LF])]"]
    capture_output_joins_lines [of "arrivals [(STDOUT, ''ready'' @ [LF])] LogCapture_init"]
  by (simp add: get_lines_def LogCapture_init_def tag_prefix_def rstrip_def LF_def CR_def)

text \<open>
  C10: what a reader appends is, for some number of the lines it read, the prefix
  \<open>[STDOUT] \<close> or \<open>[STDERR] \<close> followed by the line without its trailing line feeds and
  carriage returns (the line is that text followed only by such characters, and that
  text does not end in one); no such entry ends in a line terminator, so a buffer free
  of them stays free of them.
\<close>

theorem reader_entries_form:
  "(\<exists>n. get_lines (read_stream stop_seen k lines (tag_name t) c)
          = get_lines c @ map (\<lambda>line. tag_prefix t @ rstrip [LF, CR] line) (take n lines))
   \<and> (\<exists>rest. line = rstrip [LF, CR] line @ rest \<and> set rest \<subseteq> {LF, CR})
   \<and> \<not> ends_in_terminator (rstrip [LF, CR] line)
   \<and> \<not> ends_in_terminator (tag_prefix t @ rstrip [LF, CR] line)
   \<and> ((\<forall>e \<in> set (get_lines c). \<not> ends_in_terminator e)
        \<longrightarrow> (\<forall>e \<in> set (get_lines (read_stream stop_seen k lines (tag_name t) c)). \<not> ends_in_terminator e))"
proof -
  have a: "\<exists>n. get_lines (read_stream stop_seen k lines (tag_name t) c)
            = get_lines c @ map (\<lambda>line. tag_prefix t @ rstrip [LF, CR] line) (take n lines)"
    using read_stream_buffer [of stop_seen k lines "tag_name t" c]
    by (simp add: get_lines_def log_entry_tag_fun)
  have b: "\<exists>rest. line = rstrip [LF, CR] line @ rest \<and> set rest \<subseteq> {LF, CR}"
    using rstrip_decomp [of line "[LF, CR]"] by simp
  have c: "\<not> ends_in_terminator (rstrip [LF, CR] line)"
    using rstrip_last [of "[LF, CR]" line] by (auto simp: ends_in_terminator_def)
  have d: "\<And>l. \<not> ends_in_terminator (tag_prefix t @ rstrip [LF, CR] l)"
    using log_entry_no_terminator [of "tag_name t"] by (simp add: log_entry_tag)
  have e: "(\<forall>e \<in> set (get_lines c). \<not> ends_in_terminator e)
        \<longrightarrow> (\<forall>e \<in> set (get_lines (read_stream stop_seen k lines (tag_name t) c)). \<not> ends_in_terminator e)"
  proof -
    obtain n where "get_lines (read_stream stop_seen k lines (tag_name t) c)
            = get_lines c @ map (\<lambda>line. tag_prefix t @ rstrip [LF, CR] line) (take n lines)"
      using a by blast
    then show ?thesis using d by auto
  qed
  from a b c d e show ?thesis by blast
qed

theorem reader_entries_form_witness:
  "get_lines (read_stream (\<lambda>k. False) 0 [''ready'' @ [CR, LF], [LF], ''x''] (tag_name STDERR) LogCapture_init)
     = [''[STDERR] ready'', ''[STDERR] '', ''[STDERR] x'']
   \<and> list_all (\<lambda>e. \<not> ends_in_terminator e)
        (get_lines (read_stream (\<lambda>k. False) 0 [''ready'' @ [CR, LF], [LF], ''x''] (tag_name STDERR) LogCapture_init))"
proof -
  have h: "\<forall>e \<in> set (get_lines LogCapture_init). \<not> ends_in_terminator e"
    by (simp add: get_lines_def LogCapture_init_def)
  have v: "get_lines (read_stream (\<lambda>k. False) 0 [''ready'' @ [CR, LF], [LF], ''x''] (tag_name STDERR) LogCapture_init)
     = [''[STDERR] ready'', ''[STDERR] '', ''[STDERR] x'']"
    by (simp add: get_lines_def LogCapture_init_def append_line_def log_entry_def rstrip_def LF_def CR_def Let_def)
  from h reader_entries_form [of "\<lambda>k. False" 0 "[''ready'' @ [CR, LF], [LF], ''x'']" STDERR LogCapture_init]
  have "\<forall>e \<in> set (get_lines (read_stream (\<lambda>k. False) 0 [''ready'' @ [CR, LF], [LF], ''x'']
                        (tag_name STDERR) LogCapture_init)). \<not> ends_in_terminator e"
    by blast
  then show ?thesis
    using v by (simp only: list_all_iff simp_thms)
qed

section \<open>Evaluating the model\<close>

lemmas monad_defs = bnd_def ret_def throw_def get_self_def set_self_def os_get_def os_act_def
  os_call_def on_log_capture_def except_TimeoutExpired_def

lemmas os_defs = Popen_def poll_def terminate_def kill_def wait_def thread_start_def join_def
  connect_def sleep_def warn_def log_event_def update_proc_def

lemmas server_defs = start_def stop_def terminate_then_kill_def wait_for_socket_def
  start_xvfb_def find_free_display_def attach_def LogCapture_stop_def is_running_def
  XpraServer_init_def LogCapture_init_def get_free_port_def x11_socket_dir_def path_join_def

lemmas text_defs = str_int_def str_nat.simps digit_chr_def

lemmas run_defs = monad_defs os_defs server_defs text_defs wait_loop.simps scan_displays.simps
  Let_def

section \<open>Sequencing\<close>

lemma bnd_get_self: "bnd get_self f (self, w) = f self (self, w)"
  by (simp add: bnd_def get_self_def)

lemma bnd_set_self: "bnd (set_self g) f (self, w) = f () (g self, w)"
  by (simp add: bnd_def set_self_def)

lemma bnd_os_get: "bnd (os_get g) f (self, w) = f (g w) (self, w)"
  by (simp add: bnd_def os_get_def)

lemma bnd_os_act: "bnd (os_act g) f (self, w) = f () (self, g w)"
  by (simp add: bnd_def os_act_def)

lemma bnd_ret: "bnd (ret x) f st = f x st"
  by (simp add: bnd_def ret_def)

lemma bnd_throw: "bnd (throw e) f st = (Raise e, st)"
  by (simp add: bnd_def throw_def)

lemma bnd_assoc: "bnd (bnd m f) g = bnd m (\<lambda>x. bnd (f x) g)"
  by (rule ext) (simp add: bnd_def split: prod.splits outcome.splits)


section \<open>Properties of \<open>stop\<close>\<close>

lemma LogCapture_stop_effect:
  "\<exists>w1. on_log_capture LogCapture_stop (self, w)
          = (Return (), (self\<lparr>log_capture := (log_capture self)\<lparr>stop_event := True\<rparr>\<rparr>, w1))
        \<and> trace w1 = trace w @ reader_joins (log_capture self)
        \<and> procs w1 = procs w"
  by (simp add: on_log_capture_def LogCapture_stop_def Let_def join_def log_event_def
        reader_joins_def split: option.splits)

lemma terminate_then_kill_effect:
  "\<exists>w'. terminate_then_kill p t (self, w) = (Return (), (self, w'))
        \<and> trace w' = trace w @ graceful_then_forced p t (wait_expires p t w)
        \<and> (\<forall>q. q \<noteq> p \<longrightarrow> procs w' q = procs w q)
        \<and> poll p w' \<noteq> None"
  by (cases "returncode (procs w p)"; cases "term_delay (procs w p)")
     (simp_all add: terminate_then_kill_def except_TimeoutExpired_def bnd_def os_act_def
        os_call_def ret_def terminate_def kill_def wait_def poll_def update_proc_def
        log_event_def Let_def graceful_then_forced_def wait_expires_def)

lemma wait_expires_cong: "procs w' p = procs w p \<Longrightarrow> wait_expires p t w' = wait_expires p t w"
  by (simp add: wait_expires_def poll_def)

lemma shutdown_events_cong:
  "(\<And>p. h = Some p \<Longrightarrow> procs w' p = procs w p) \<Longrightarrow> shutdown_events h t w' = shutdown_events h t w"
  by (cases h) (simp_all add: shutdown_events_def wait_expires_def poll_def)

text \<open>Shutting one optional handle down, as each of the two branches of \<open>stop\<close> does.\<close>

lemma shutdown_branch:
  "\<exists>w'. (case h of
            Some p \<Rightarrow> bnd (terminate_then_kill p t) (\<lambda>_. set_self clr)
          | None \<Rightarrow> ret ()) (self, w)
          = (Return (), ((case h of Some p \<Rightarrow> clr self | None \<Rightarrow> self), w'))
        \<and> trace w' = trace w @ shutdown_events h t w
        \<and> (\<forall>q. h \<noteq> Some q \<longrightarrow> procs w' q = procs w q)"
proof (cases h)
  case None
  then show ?thesis
    by (simp add: ret_def shutdown_events_def)
next
  case (Some p)
  obtain w' where "terminate_then_kill p t (self, w) = (Return (), (self, w'))"
    and "trace w' = trace w @ graceful_then_forced p t (wait_expires p t w)"
    and "\<forall>q. q \<noteq> p \<longrightarrow> procs w' q = procs w q"
    using terminate_then_kill_effect [of p t self w] by blast
  with Some show ?thesis
    by (auto simp: bnd_def set_self_def shutdown_events_def)
qed

lemma stop_effect:
  "\<exists>w1 w2 w'.
     stop t (self, w)
       = (Return (),
          (self\<lparr>log_capture := (log_capture self)\<lparr>stop_event := True\<rparr>,
                 process := None, xvfb_process := None\<rparr>, w'))
     \<and> trace w1 = trace w @ reader_joins (log_capture self)
     \<and> procs w1 = procs w
     \<and> trace w2 = trace w1 @ shutdown_events (process self) t w1
     \<and> (\<forall>q. process self \<noteq> Some q \<longrightarrow> procs w2 q = procs w1 q)
     \<and> trace w' = trace w2 @ shutdown_events (xvfb_process self) 5 w2
     \<and> (\<forall>q. xvfb_process self \<noteq> Some q \<longrightarrow> procs w' q = procs w2 q)"
proof -
  let ?s1 = "self\<lparr>log_capture := (log_capture self)\<lparr>stop_event := True\<rparr>\<rparr>"
  let ?s2 = "case process ?s1 of Some p \<Rightarrow> ?s1\<lparr>process := None\<rparr> | None \<Rightarrow> ?s1"
  let ?s3 = "case xvfb_process ?s2 of Some p \<Rightarrow> ?s2\<lparr>xvfb_process := None\<rparr> | None \<Rightarrow> ?s2"
  obtain w1 where 1: "on_log_capture LogCapture_stop (self, w) = (Return (), (?s1, w1))"
    and t1: "trace w1 = trace w @ reader_joins (log_capture self)" and p1: "procs w1 = procs w"
    using LogCapture_stop_effect [of self w] by blast
  obtain w2 where 2: "(case process ?s1 of
            Some p \<Rightarrow> bnd (terminate_then_kill p t) (\<lambda>_. set_self (\<lambda>s. s\<lparr>process := None\<rparr>))
          | None \<Rightarrow> ret ()) (?s1, w1) = (Return (), (?s2, w2))"
    and t2: "trace w2 = trace w1 @ shutdown_events (process ?s1) t w1"
    and p2: "\<forall>q. process ?s1 \<noteq> Some q \<longrightarrow> procs w2 q = procs w1 q"
    using shutdown_branch [where h = "process ?s1" and t = t and clr = "\<lambda>s. s\<lparr>process := None\<rparr>"
        and self = ?s1 and w = w1] by blast
  obtain w3 where 3: "(case xvfb_process ?s2 of
            Some p \<Rightarrow> bnd (terminate_then_kill p 5) (\<lambda>_. set_self (\<lambda>s. s\<lparr>xvfb_process := None\<rparr>))
          | None \<Rightarrow> ret ()) (?s2, w2) = (Return (), (?s3, w3))"
    and t3: "trace w3 = trace w2 @ shutdown_events (xvfb_process ?s2) 5 w2"
    and p3: "\<forall>q. xvfb_process ?s2 \<noteq> Some q \<longrightarrow> procs w3 q = procs w2 q"
    using shutdown_branch [where h = "xvfb_process ?s2" and t = 5
        and clr = "\<lambda>s. s\<lparr>xvfb_process := None\<rparr>" and self = ?s2 and w = w2] by blast
  have x2: "xvfb_process ?s2 = xvfb_process self"
    by (simp split: option.splits)
  have s3: "?s3 = self\<lparr>log_capture := (log_capture self)\<lparr>stop_event := True\<rparr>,
                       process := None, xvfb_process := None\<rparr>"
    by (cases self) (simp split: option.splits)
  have "stop t (self, w) = (Return (), (?s3, w3))"
    using 1 2 3 by (simp add: stop_def bnd_def get_self_def)
  with s3 t1 p1 t2 p2 t3 p3 x2 show ?thesis
    by (intro exI [of _ w1] exI [of _ w2] exI [of _ w3]) simp
qed

text \<open>
  C2: \<open>stop\<close> returns, and in the state it leaves both the main and the helper handle are
  cleared and \<open>is_running\<close> is false, whatever the processes did on the signals;
  \<open>is_running\<close> is true exactly when a main handle is recorded and the operating system
  reports that process as not exited.
\<close>

theorem stop_clears_handles:
  "fst (stop timeout (self, w)) = Return ()
   \<and> process (fst (snd (stop timeout (self, w)))) = None
   \<and> xvfb_process (fst (snd (stop timeout (self, w)))) = None
   \<and> is_running (snd (stop timeout (self, w))) = False
   \<and> is_running (self, w) = (\<exists>p. process self = Some p \<and> poll p w = None)"
proof -
  obtain w' where "stop timeout (self, w)
       = (Return (),
          (self\<lparr>log_capture := (log_capture self)\<lparr>stop_event := True\<rparr>,
                 process := None, xvfb_process := None\<rparr>, w'))"
    using stop_effect [of timeout self w] by blast
  then show ?thesis
    by (simp add: is_running_def split: option.splits)
qed

text \<open>
  C3: the calls that \<open>stop\<close> makes are, after the joins of the capture, the
  graceful-then-forced pattern on the main process with the caller's timeout and then the
  same pattern on the helper with the fixed timeout 5, which is shorter than the default
  10 of the main one: SIGTERM, a bounded wait, and the kill and an unbounded wait exactly
  when the bounded wait expired. \<open>stop\<close> returns normally on every path. (Main and helper
  are different processes.)
\<close>

theorem stop_escalates:
  assumes "process self = None \<or> process self \<noteq> xvfb_process self"
  shows "fst (stop timeout (self, w)) = Return ()
   \<and> new_events w (snd (snd (stop timeout (self, w))))
       = reader_joins (log_capture self)
         @ shutdown_events (process self) timeout w
         @ shutdown_events (xvfb_process self) 5 w
   \<and> (5 :: int) < stop_default_timeout"
proof -
  obtain w1 w2 w' where st: "stop timeout (self, w)
       = (Return (),
          (self\<lparr>log_capture := (log_capture self)\<lparr>stop_event := True\<rparr>,
                 process := None, xvfb_process := None\<rparr>, w'))"
     and t1: "trace w1 = trace w @ reader_joins (log_capture self)"
     and p1: "procs w1 = procs w"
     and t2: "trace w2 = trace w1 @ shutdown_events (process self) timeout w1"
     and p2: "\<forall>q. process self \<noteq> Some q \<longrightarrow> procs w2 q = procs w1 q"
     and t3: "trace w' = trace w2 @ shutdown_events (xvfb_process self) 5 w2"
    using stop_effect [of timeout self w] by blast
  have e1: "shutdown_events (process self) timeout w1 = shutdown_events (process self) timeout w"
    by (rule shutdown_events_cong) (simp add: p1)
  have "\<And>x. xvfb_process self = Some x \<Longrightarrow> procs w2 x = procs w x"
    using assms p1 p2 by auto
  then have e2: "shutdown_events (xvfb_process self) 5 w2 = shutdown_events (xvfb_process self) 5 w"
    by (rule shutdown_events_cong)
  from st t1 t2 t3 e1 e2 show ?thesis
    by (simp add: new_events_def stop_default_timeout_def)
qed

text \<open>
  C9, as amended: on a session with no main and no helper process recorded, \<open>stop\<close>
  returns normally; it signals and waits on no process and leaves the process table and
  every field of the session unchanged except that the stop flag of the capture is set;
  the only calls it makes are the joins of the reader threads the capture still records;
  a second \<open>stop\<close> in a row returns normally and leaves the same session.
\<close>

theorem stop_idle_session:
  assumes "process self = None" and "xvfb_process self = None"
  shows "fst (stop timeout (self, w)) = Return ()
   \<and> fst (snd (stop timeout (self, w)))
       = self\<lparr>log_capture := (log_capture self)\<lparr>stop_event := True\<rparr>\<rparr>
   \<and> new_events w (snd (snd (stop timeout (self, w)))) = reader_joins (log_capture self)
   \<and> procs (snd (snd (stop timeout (self, w)))) = procs w
   \<and> fst (stop timeout (snd (stop timeout (self, w)))) = Return ()
   \<and> fst (snd (stop timeout (snd (stop timeout (self, w))))) = fst (snd (stop timeout (self, w)))"
proof -
  obtain w1 w2 w' where st: "stop timeout (self, w)
       = (Return (),
          (self\<lparr>log_capture := (log_capture self)\<lparr>stop_event := True\<rparr>,
                 process := None, xvfb_process := None\<rparr>, w'))"
     and t1: "trace w1 = trace w @ reader_joins (log_capture self)"
     and p1: "procs w1 = procs w"
     and t2: "trace w2 = trace w1 @ shutdown_events (process self) timeout w1"
     and p2: "\<forall>q. process self \<noteq> Some q \<longrightarrow> procs w2 q = procs w1 q"
     and t3: "trace w' = trace w2 @ shutdown_events (xvfb_process self) 5 w2"
     and p3: "\<forall>q. xvfb_process self \<noteq> Some q \<longrightarrow> procs w' q = procs w2 q"
    using stop_effect [of timeout self w] by blast
  let ?s' = "self\<lparr>log_capture := (log_capture self)\<lparr>stop_event := True\<rparr>\<rparr>"
  have s': "self\<lparr>log_capture := (log_capture self)\<lparr>stop_event := True\<rparr>,
                 process := None, xvfb_process := None\<rparr> = ?s'"
    using assms by (cases self) simp
  obtain w'' where st2: "stop timeout (?s', w')
       = (Return (),
          (?s'\<lparr>log_capture := (log_capture ?s')\<lparr>stop_event := True\<rparr>,
                 process := None, xvfb_process := None\<rparr>, w''))"
    using stop_effect [of timeout ?s' w'] by blast
  have s'': "?s'\<lparr>log_capture := (log_capture ?s')\<lparr>stop_event := True\<rparr>,
                 process := None, xvfb_process := None\<rparr> = ?s'"
    using assms by (cases self) simp
  have pr: "procs w' = procs w"
    using assms p1 p2 p3 by auto
  from st s' st2 s'' t1 t2 t3 assms pr show ?thesis
    by (simp add: new_events_def shutdown_events_def)
qed

theorem stop_clears_handles_witness:
  "is_running started_linux
   \<and> fst (stop 10 started_linux) = Return ()
   \<and> process (fst (snd (stop 10 started_linux))) = None
   \<and> xvfb_process (fst (snd (stop 10 started_linux))) = None
   \<and> is_running (snd (stop 10 started_linux)) = False"
proof -
  have "is_running started_linux"
    by (simp add: started_linux_def fresh_linux_def linux_world_def run_defs)
  then show ?thesis
    using stop_clears_handles [of 10 "fst started_linux" "snd started_linux"] by simp
qed

theorem stop_escalates_witness:
  "process (fst started_stubborn) \<noteq> xvfb_process (fst started_stubborn)
   \<and> fst (stop 10 started_stubborn) = Return ()
   \<and> new_events (snd started_stubborn) (snd (snd (stop 10 started_stubborn)))
       = [Join 0, Join 1,
          Terminate 1001, Wait 1001 (Some 10), Kill 1001, Wait 1001 None,
          Terminate 1000, Wait 1000 (Some 5), Kill 1000, Wait 1000 None]"
proof -
  have h: "process (fst started_stubborn) \<noteq> xvfb_process (fst started_stubborn)"
    by (simp add: started_stubborn_def stubborn_world_def linux_world_def run_defs)
  have e: "reader_joins (log_capture (fst started_stubborn))
           @ shutdown_events (process (fst started_stubborn)) 10 (snd started_stubborn)
           @ shutdown_events (xvfb_process (fst started_stubborn)) 5 (snd started_stubborn)
         = [Join 0, Join 1,
            Terminate 1001, Wait 1001 (Some 10), Kill 1001, Wait 1001 None,
            Terminate 1000, Wait 1000 (Some 5), Kill 1000, Wait 1000 None]"
    by (simp add: started_stubborn_def stubborn_world_def linux_world_def run_defs
          reader_joins_def shutdown_events_def graceful_then_forced_def wait_expires_def)
  from h e show ?thesis
    using stop_escalates [of "fst started_stubborn" 10 "snd started_stubborn"] by simp
qed

theorem stop_idle_session_witness:
  "process (fst fresh_linux) = None
   \<and> xvfb_process (fst fresh_linux) = None
   \<and> fst (stop 10 fresh_linux) = Return ()
   \<and> new_events (snd fresh_linux) (snd (snd (stop 10 fresh_linux))) = []
   \<and> fst (stop 10 (snd (stop 10 fresh_linux))) = Return ()"
proof -
  have h: "process (fst fresh_linux) = None" "xvfb_process (fst fresh_linux) = None"
    by (simp_all add: fresh_linux_def XpraServer_init_def)
  have e: "reader_joins (log_capture (fst fresh_linux)) = []"
    by (simp add: fresh_linux_def XpraServer_init_def LogCapture_init_def reader_joins_def)
  from h e show ?thesis
    using stop_idle_session [of "fst fresh_linux" 10 "snd fresh_linux"] by simp
qed

text \<open>
  Against C9 as stated: on the session that \<open>start\<close> and \<open>stop\<close> left (no process
  recorded, already stopped) the capture still records the two reader threads, and a
  second \<open>stop\<close> joins both.
\<close>

theorem stop_twice_joins_readers:
  "process (fst stopped_linux) = None
   \<and> xvfb_process (fst stopped_linux) = None
   \<and> new_events (snd stopped_linux) (snd (snd (stop 10 stopped_linux))) = [Join 0, Join 1]"
  by (simp add: stopped_linux_def started_linux_def fresh_linux_def linux_world_def run_defs
        new_events_def)

end
